theory Spec2Isabelle
  imports Complex_Main
begin

section \<open>Python and NumPy values\<close>

text \<open>
  Python floats are modelled as real numbers; rounding, overflow, infinities and NaN are
  outside the model. Exceptions are values of the type \<open>error\<close>, and a computation that
  may raise returns \<open>error + 'a\<close>. The parameters of the beam are Python floats (or ints):
  \<open>np.random.random()\<close> without a size, a slider value divided by a constant and the
  literals of \<open>__init__\<close> all are, so that a division by zero between them raises
  \<open>ZeroDivisionError\<close>.
\<close>

datatype error =
  ZeroDivisionError | ValueError | KeyError | IndexError | ComplexValue | OverflowError

text \<open>\<open>int(x)\<close> of a float: truncation toward zero.\<close>

definition py_int :: "real \<Rightarrow> int" where
  "py_int x = (if x < 0 then \<lceil>x\<rceil> else \<lfloor>x\<rfloor>)"

text \<open>\<open>np.sign\<close> on an integer.\<close>

definition np_sign :: "int \<Rightarrow> int" where
  "np_sign c = (if c < 0 then - 1 else if c = 0 then 0 else 1)"

text \<open>
  A two-dimensional NumPy array: its shape and its entries. Only the entries inside the
  shape belong to the array.
\<close>

record ndarray =
  nrows :: nat
  ncols :: nat
  ent :: "nat \<Rightarrow> nat \<Rightarrow> real"

text \<open>\<open>np.fromfunction(f, (r, c))\<close>: the entry at row \<open>i\<close>, column \<open>j\<close> is \<open>f(i, j)\<close>.\<close>

definition fromfunction :: "(real \<Rightarrow> real \<Rightarrow> real) \<Rightarrow> nat \<Rightarrow> nat \<Rightarrow> ndarray" where
  "fromfunction f r c = \<lparr>nrows = r, ncols = c, ent = (\<lambda>i j. f (real i) (real j))\<rparr>"

text \<open>\<open>A.sum()\<close>: the sum of all entries.\<close>

definition np_sum :: "ndarray \<Rightarrow> real" where
  "np_sum A = (\<Sum>i\<leftarrow>[0..<nrows A]. \<Sum>j\<leftarrow>[0..<ncols A]. ent A i j)"

text \<open>\<open>A / s\<close> for a scalar \<open>s\<close>.\<close>

definition np_div_scalar :: "ndarray \<Rightarrow> real \<Rightarrow> ndarray" where
  "np_div_scalar A s = A\<lparr>ent := (\<lambda>i j. ent A i j / s)\<rparr>"

section \<open>The beam (beam\_calculation.py)\<close>

text \<open>
  The attributes of class \<open>Beam\<close>. The attribute \<open>size\<close> is \<open>size_k\<close> here; it is the
  side of the kernel, a non-negative integer.
\<close>

record beam =
  z_position :: real
  pixels_per_mm :: real
  astigm_x :: real
  astigm_y :: real
  misalign_x :: real
  misalign_y :: real
  focus :: real
  stigm_x :: real
  stigm_y :: real
  align_x :: real
  align_y :: real
  beam_current :: real
  convergence :: real
  size_k :: nat

definition defocus :: "beam \<Rightarrow> real" where
  "defocus p = focus p - z_position p"

definition center_x :: "beam \<Rightarrow> error + int" where
  "center_x p =
     (if focus p = 0 then Inl ZeroDivisionError
      else let c_x = py_int ((align_x p - misalign_x p) * defocus p / focus p * pixels_per_mm p)
           in Inr (min \<bar>c_x\<bar> 96 * np_sign c_x))"

definition center_y :: "beam \<Rightarrow> error + int" where
  "center_y p =
     (if focus p = 0 then Inl ZeroDivisionError
      else let c_y = py_int ((align_y p - misalign_y p) * defocus p / focus p * pixels_per_mm p)
           in Inr (min \<bar>c_y\<bar> 49 * np_sign c_y))"

definition sigma2_x_mm :: "beam \<Rightarrow> real" where
  "sigma2_x_mm p =
     ((defocus p + \<bar>align_x p - misalign_x p\<bar> * (1 / 10 ^ 2) + \<bar>stigm_x p + astigm_x p\<bar>)
        * convergence p) ^ 2
     + (1 / 10 ^ 16) * (1 + 100 * beam_current p) ^ 3 / 4"

definition sigma2_y_mm :: "beam \<Rightarrow> real" where
  "sigma2_y_mm p =
     ((defocus p + \<bar>align_y p - misalign_y p\<bar> * (1 / 10 ^ 2) + \<bar>stigm_y p + astigm_y p\<bar>)
        * convergence p) ^ 2
     + (1 / 10 ^ 16) * (1 + 100 * beam_current p) ^ 3 / 4"

definition sigma2_x_px :: "beam \<Rightarrow> real" where
  "sigma2_x_px p = sigma2_x_mm p * pixels_per_mm p ^ 2"

definition sigma2_y_px :: "beam \<Rightarrow> real" where
  "sigma2_y_px p = sigma2_y_mm p * pixels_per_mm p ^ 2"

text \<open>The quotient of two Python floats raises when the divisor is zero.\<close>

definition astig_angle :: "beam \<Rightarrow> error + real" where
  "astig_angle p =
     (if stigm_y p + astigm_y p = 0 then Inl ZeroDivisionError
      else Inr (arctan ((stigm_x p + astigm_x p) / (stigm_y p + astigm_y p)) / 2))"

text \<open>
  The value of the inner function \<open>gauss(i, j)\<close>, once the angle \<open>a\<close> has been computed
  and the two variances are not zero.
\<close>

definition gauss :: "beam \<Rightarrow> real \<Rightarrow> real \<Rightarrow> real \<Rightarrow> real" where
  "gauss p a i j =
     exp (- ((j - real (size_k p) / 2) ^ 2) *
            ((cos a) ^ 2 / sigma2_x_px p + (sin a) ^ 2 / sigma2_y_px p)
          - (i - real (size_k p) / 2) ^ 2 *
            ((sin a) ^ 2 / sigma2_x_px p + (cos a) ^ 2 / sigma2_y_px p)
          + (i - real (size_k p) / 2) * (j - real (size_k p) / 2) *
            sin (2 * a) * (1 / sigma2_y_px p - 1 / sigma2_x_px p))"

definition raw_gauss :: "beam \<Rightarrow> real \<Rightarrow> ndarray" where
  "raw_gauss p a = fromfunction (gauss p a) (size_k p) (size_k p)"

text \<open>
  \<open>beam_intensity\<close>: the angle is computed first (and may raise); \<open>1/sigma2\<close> raises when a
  variance is zero; the grid is divided by its sum.
\<close>

definition beam_intensity :: "beam \<Rightarrow> error + ndarray" where
  "beam_intensity p =
     (case astig_angle p of
        Inl e \<Rightarrow> Inl e
      | Inr a \<Rightarrow>
          if sigma2_y_px p = 0 \<or> sigma2_x_px p = 0 then Inl ZeroDivisionError
          else Inr (np_div_scalar (raw_gauss p a) (np_sum (raw_gauss p a))))"

section \<open>Array operations used by the frame synthesizer\<close>

text \<open>\<open>xs[i]\<close> on a Python list: a negative index counts from the end.\<close>

definition py_index :: "'a list \<Rightarrow> int \<Rightarrow> error + 'a" where
  "py_index xs i =
     (if 0 \<le> i \<and> i < int (length xs) then Inr (xs ! nat i)
      else if i < 0 \<and> 0 \<le> int (length xs) + i then Inr (xs ! nat (int (length xs) + i))
      else Inl IndexError)"

text \<open>
  A slice \<open>a:b:k\<close> with \<open>k > 0\<close> on an axis of length \<open>n\<close>: both bounds are clipped to
  \<open>0..n\<close> (a negative bound counts from the end), and the slice has
  \<open>ceil((stop - start) / k)\<close> elements. A step of zero raises \<open>ValueError\<close>.
\<close>

definition py_clip :: "nat \<Rightarrow> int \<Rightarrow> nat" where
  "py_clip n k = (if k < 0 then nat (max 0 (int n + k)) else min n (nat k))"

definition slice_len :: "nat \<Rightarrow> nat \<Rightarrow> nat \<Rightarrow> nat" where
  "slice_len s e k = (if s < e then (e - s + k - 1) div k else 0)"

definition np_slice :: "ndarray \<Rightarrow> int \<times> int \<times> nat \<Rightarrow> int \<times> int \<times> nat \<Rightarrow> error + ndarray" where
  "np_slice A rs cs =
     (case (rs, cs) of ((a0, b0, k0), (a1, b1, k1)) \<Rightarrow>
        if k0 = 0 \<or> k1 = 0 then Inl ValueError
        else Inr \<lparr>nrows = slice_len (py_clip (nrows A) a0) (py_clip (nrows A) b0) k0,
                  ncols = slice_len (py_clip (ncols A) a1) (py_clip (ncols A) b1) k1,
                  ent = (\<lambda>i j. ent A (py_clip (nrows A) a0 + i * k0) (py_clip (ncols A) a1 + j * k1))\<rparr>)"

text \<open>\<open>A.T\<close>.\<close>

definition np_T :: "ndarray \<Rightarrow> ndarray" where
  "np_T A = \<lparr>nrows = ncols A, ncols = nrows A, ent = (\<lambda>i j. ent A j i)\<rparr>"

text \<open>A scalar function applied to every entry (\<open>A * s\<close>, \<open>s * A + t\<close>, ...).\<close>

definition np_map :: "(real \<Rightarrow> real) \<Rightarrow> ndarray \<Rightarrow> ndarray" where
  "np_map f A = A\<lparr>ent := (\<lambda>i j. f (ent A i j))\<rparr>"

text \<open>\<open>np.random.rand(r, c)\<close>, the draws being given by \<open>noise\<close>.\<close>

definition np_rand :: "(nat \<Rightarrow> nat \<Rightarrow> real) \<Rightarrow> nat \<Rightarrow> nat \<Rightarrow> ndarray" where
  "np_rand noise r c = \<lparr>nrows = r, ncols = c, ent = noise\<rparr>"

text \<open>
  Broadcasting of two axes: equal lengths, or one of them 1 (that axis is then read at
  index 0); anything else raises \<open>ValueError\<close>.
\<close>

definition bc_dim :: "nat \<Rightarrow> nat \<Rightarrow> nat option" where
  "bc_dim a b = (if a = b then Some a else if a = 1 then Some b else if b = 1 then Some a else None)"

definition bc_idx :: "nat \<Rightarrow> nat \<Rightarrow> nat" where
  "bc_idx n i = (if n = 1 then 0 else i)"

definition np_add :: "ndarray \<Rightarrow> ndarray \<Rightarrow> error + ndarray" where
  "np_add A B =
     (case (bc_dim (nrows A) (nrows B), bc_dim (ncols A) (ncols B)) of
        (Some r, Some c) \<Rightarrow>
          Inr \<lparr>nrows = r, ncols = c,
               ent = (\<lambda>i j. ent A (bc_idx (nrows A) i) (bc_idx (ncols A) j)
                           + ent B (bc_idx (nrows B) i) (bc_idx (ncols B) j))\<rparr>
      | _ \<Rightarrow> Inl ValueError)"

text \<open>
  \<open>F[:, a:b] = V\<close>: the value is broadcast to the shape of the target, whose columns are
  the slice \<open>a:b\<close> of the columns of \<open>F\<close>; every other entry of \<open>F\<close> is kept.
\<close>

definition assign_cols :: "ndarray \<Rightarrow> int \<Rightarrow> int \<Rightarrow> ndarray \<Rightarrow> error + ndarray" where
  "assign_cols F a b V =
     (let s = py_clip (ncols F) a; w = slice_len s (py_clip (ncols F) b) 1
      in if (nrows V = nrows F \<or> nrows V = 1) \<and> (ncols V = w \<or> ncols V = 1)
         then Inr (F\<lparr>ent := (\<lambda>i j. if s \<le> j \<and> j < s + w
                                    then ent V (bc_idx (nrows V) i) (bc_idx (ncols V) (j - s))
                                    else ent F i j)\<rparr>)
         else Inl ValueError)"

text \<open>\<open>np.zeros((r, c))\<close>.\<close>

definition np_zeros :: "nat \<Rightarrow> nat \<Rightarrow> ndarray" where
  "np_zeros r c = \<lparr>nrows = r, ncols = c, ent = (\<lambda>i j. 0)\<rparr>"

text \<open>
  What \<open>convolution(image, kernel)\<close> of image\_processing.py computes in exact arithmetic
  when the image has an even number of columns: the kernel is cropped or padded with
  zeros to the shape of the image, and the two are convolved circularly. The function is
  built on NumPy's FFT, so the theorems below take \<open>convolution\<close> as a parameter; this
  definition is the instance used on concrete inputs.
\<close>

definition circular_convolution :: "ndarray \<Rightarrow> ndarray \<Rightarrow> ndarray" where
  "circular_convolution img ker =
     img\<lparr>ent := (\<lambda>x y. \<Sum>u\<leftarrow>[0..<nrows img]. \<Sum>v\<leftarrow>[0..<ncols img].
                ent img u v *
                (let r = (x + nrows img - u) mod nrows img;
                     c = (y + ncols img - v) mod ncols img
                 in if r < nrows ker \<and> c < ncols ker then ent ker r c else 0))\<rparr>"

section \<open>The microscope (microscope.py)\<close>

text \<open>
  The attributes of class \<open>Microscope\<close> that \<open>start_stop\<close> and \<open>scanning\<close> read or write,
  with the widgets and the timer they use: the text of the detector box, the two sliders,
  the label of the start button, and whether the scan timer runs and at which interval.
\<close>

record microscope =
  mags :: "int list"
  curr_mag :: int
  images :: "string \<rightharpoonup> (int \<rightharpoonup> ndarray)"
  resolution :: "nat \<times> nat"
  frame :: ndarray
  scan_active :: bool
  line :: int
  speed :: int
  beam_on :: bool
  hv_target :: real
  h_v :: real
  beam :: beam
  detector :: string
  contrast_Slider :: int
  brightness_Slider :: int
  start_stop_text :: string
  timer_active :: bool
  timer_interval :: int

definition start_stop :: "microscope \<Rightarrow> microscope" where
  "start_stop m =
     (if scan_active m
      then m\<lparr>timer_active := False, scan_active := False,
              start_stop_text := ''Start scanning''\<rparr>
      else m\<lparr>timer_active := True, timer_interval := speed m * 10, scan_active := True,
              start_stop_text := ''Stop scanning''\<rparr>)"

definition scan_step :: "microscope \<Rightarrow> int" where
  "scan_step m = 11 - speed m"

text \<open>
  The columns \<open>a:b\<close> of the frame that a tick assigns, after the three branches of
  \<open>scanning\<close>: a full slice, the last slice of a pass (up to the last column), or none
  when the tick only resets the line.
\<close>

definition scan_cols :: "microscope \<Rightarrow> (int \<times> int) option" where
  "scan_cols m =
     (if line m < int (snd (resolution m)) - 1 - scan_step m
        then Some (line m, line m + scan_step m)
      else if line m < int (snd (resolution m)) - 1
        then Some (line m, int (snd (resolution m)))
      else None)"

text \<open>
  \<open>convolution(self.images[det][self.mags[self.curr_mag]][...], self.beam.beam_intensity).T\<close>:
  the reference image is looked up, cropped around the beam centre with stride \<open>scale\<close>,
  convolved with the kernel and transposed.
\<close>

definition convolved_T :: "(ndarray \<Rightarrow> ndarray \<Rightarrow> ndarray) \<Rightarrow> microscope \<Rightarrow> error + ndarray" where
  "convolved_T convolution m =
     (case images m (detector m) of
        None \<Rightarrow> Inl KeyError
      | Some by_mag \<Rightarrow>
     (case py_index (mags m) (curr_mag m) of
        Inl e \<Rightarrow> Inl e
      | Inr mag \<Rightarrow>
     (case by_mag mag of
        None \<Rightarrow> Inl KeyError
      | Some img \<Rightarrow>
     (case center_y (beam m) of
        Inl e \<Rightarrow> Inl e
      | Inr c_y \<Rightarrow>
     (case center_x (beam m) of
        Inl e \<Rightarrow> Inl e
      | Inr c_x \<Rightarrow>
     (case np_slice img (192 + c_y, 576 + 128 + c_y, 512 div fst (resolution m))
                          (256 + c_x, 768 + 128 + c_x, 512 div fst (resolution m)) of
        Inl e \<Rightarrow> Inl e
      | Inr window \<Rightarrow>
     (case beam_intensity (beam m) of
        Inl e \<Rightarrow> Inl e
      | Inr ker \<Rightarrow> Inr (np_T (convolution window ker)))))))))"

text \<open>
  The right-hand side of the assignment to \<open>frame[:, a:b]\<close>. In the first branch
  \<open>b = line + step\<close> and the noise has \<open>step = b - a\<close> columns; in the second
  \<open>b = resolution[1]\<close> and the noise has \<open>resolution[1] - line = b - a\<close> columns.
  Dividing by \<open>speed ** 0.5 = 0.0\<close> raises; a negative base under \<open>** 0.5\<close> gives a
  complex number, where the model stops.
\<close>

definition scan_slice ::
  "(ndarray \<Rightarrow> ndarray \<Rightarrow> ndarray) \<Rightarrow> (nat \<Rightarrow> nat \<Rightarrow> real) \<Rightarrow> microscope \<Rightarrow> int \<Rightarrow> int \<Rightarrow> error + ndarray" where
  "scan_slice convolution noise m a b =
     (if hv_target m = 0 then Inl ZeroDivisionError
      else
     (case convolved_T convolution m of
        Inl e \<Rightarrow> Inl e
      | Inr ct \<Rightarrow>
     (case np_slice ct (int (fst (resolution m) div 8), int (9 * fst (resolution m) div 8), 1)
                       (a + int (fst (resolution m) div 8), b + int (fst (resolution m) div 8), 1) of
        Inl e \<Rightarrow> Inl e
      | Inr conv \<Rightarrow>
          if speed m = 0 then Inl ZeroDivisionError
          else if beam_current (beam m) < 0 \<or> speed m < 0 then Inl ComplexValue
          else if b - a < 0 then Inl ValueError
          else
     (case np_add (np_map (\<lambda>v. v * beam_current (beam m)) conv)
                  (np_map (\<lambda>v. 10 * sqrt (beam_current (beam m)) / sqrt (real_of_int (speed m)) * v)
                     (np_rand noise (fst (resolution m)) (nat (b - a)))) of
        Inl e \<Rightarrow> Inl e
      | Inr s \<Rightarrow>
          Inr (np_map (\<lambda>v. of_bool (beam_on m) * h_v m / hv_target m * v
                             * (real_of_int (contrast_Slider m) / 30) ^ 2
                             + real_of_int (brightness_Slider m) - 250) s)))))"

text \<open>
  One call of \<open>scanning\<close>, the timer's slot. \<open>scale = int(512 / resolution[0])\<close> is computed
  before the branches. The call to \<open>setImage\<close> at the end only displays the frame.
\<close>

definition scanning ::
  "(ndarray \<Rightarrow> ndarray \<Rightarrow> ndarray) \<Rightarrow> (nat \<Rightarrow> nat \<Rightarrow> real) \<Rightarrow> microscope \<Rightarrow> error + microscope" where
  "scanning convolution noise m =
     (if fst (resolution m) = 0 then Inl ZeroDivisionError
      else
     (case scan_cols m of
        None \<Rightarrow> Inr (m\<lparr>line := 0\<rparr>)
      | Some (a, b) \<Rightarrow>
     (case scan_slice convolution noise m a b of
        Inl e \<Rightarrow> Inl e
      | Inr v \<Rightarrow>
     (case assign_cols (frame m) a b v of
        Inl e \<Rightarrow> Inl e
      | Inr f \<Rightarrow> Inr (m\<lparr>frame := f, line := line m + scan_step m\<rparr>)))))"

text \<open>\<open>n\<close> ticks of the scan timer; tick \<open>k\<close> draws its noise from \<open>noise k\<close>.\<close>

fun ticks ::
  "(ndarray \<Rightarrow> ndarray \<Rightarrow> ndarray) \<Rightarrow> (nat \<Rightarrow> nat \<Rightarrow> nat \<Rightarrow> real) \<Rightarrow> nat \<Rightarrow> microscope \<Rightarrow> error + microscope" where
  "ticks convolution noise 0 m = Inr m"
| "ticks convolution noise (Suc n) m =
     (case ticks convolution noise n m of
        Inl e \<Rightarrow> Inl e
      | Inr m' \<Rightarrow> scanning convolution (noise n) m')"

section \<open>Conditions of a tick that raises nothing\<close>

text \<open>
  The state in which a tick raises nothing and broadcasts nothing: the frame has the shape
  \<open>resolution\<close>, whose first component is not zero; \<open>hv_target\<close> is not zero; the beam
  current is not negative and the speed is between 1 and 10; and the convolved, transposed
  window is computed and is large enough for the rows \<open>r0/8 : 9*r0/8\<close> and for the
  columns up to \<open>resolution[1] + r0/8\<close> that the slices read.
\<close>

definition scan_ready :: "(ndarray \<Rightarrow> ndarray \<Rightarrow> ndarray) \<Rightarrow> microscope \<Rightarrow> bool" where
  "scan_ready convolution m =
     (0 < fst (resolution m) \<and>
      nrows (frame m) = fst (resolution m) \<and> ncols (frame m) = snd (resolution m) \<and>
      hv_target m \<noteq> 0 \<and> 0 \<le> beam_current (beam m) \<and> 1 \<le> speed m \<and> speed m \<le> 10 \<and>
      (case convolved_T convolution m of
         Inl e \<Rightarrow> False
       | Inr ct \<Rightarrow> 9 * fst (resolution m) div 8 \<le> nrows ct \<and>
                   snd (resolution m) + fst (resolution m) div 8 \<le> ncols ct))"

text \<open>
  The value of one pixel of the output slice as the specification writes it, from the
  convolved pixel \<open>c\<close> and the uniform draw \<open>u\<close>.
\<close>

definition slice_value :: "microscope \<Rightarrow> real \<Rightarrow> real \<Rightarrow> real" where
  "slice_value m c u =
     of_bool (beam_on m) * (h_v m / hv_target m)
       * (c * beam_current (beam m)
          + 10 * sqrt (beam_current (beam m)) / sqrt (real_of_int (speed m)) * u)
       * (real_of_int (contrast_Slider m) / 30) ^ 2
     + (real_of_int (brightness_Slider m) - 250)"

section \<open>Double arithmetic\<close>

text \<open>
  The functions of the beam once more, now on doubles. A Python float or a NumPy
  \<open>float64\<close> is a finite double, given by its value (the two zeros are one value here), an
  infinity, or NaN.
\<close>

datatype pyfloat = Fin real | PInf | NInf | NaN

text \<open>
  The arithmetic of the platform: \<open>rnd\<close> gives the double that the exact result of
  \<open>+\<close>, \<open>-\<close>, \<open>*\<close> or \<open>/\<close> is rounded to (an infinity when it overflows); \<open>fpow\<close> is the
  power with an integer exponent (C's \<open>pow\<close>), \<open>fexp\<close>, \<open>fcos\<close>, \<open>fsin\<close> and \<open>farctan\<close>
  are NumPy's functions, and \<open>fsum\<close> is \<open>ndarray.sum\<close> on the entries of an array. They
  are parameters: a property proved for every \<open>F\<close>, or for every \<open>F\<close> with the stated
  properties of IEEE 754 arithmetic, holds for the doubles of the machine.
\<close>

record arith =
  rnd :: "real \<Rightarrow> pyfloat"
  fpow :: "pyfloat \<Rightarrow> int \<Rightarrow> pyfloat"
  fexp :: "pyfloat \<Rightarrow> pyfloat"
  fcos :: "pyfloat \<Rightarrow> pyfloat"
  fsin :: "pyfloat \<Rightarrow> pyfloat"
  farctan :: "pyfloat \<Rightarrow> pyfloat"
  fsum :: "pyfloat list \<Rightarrow> pyfloat"

text \<open>
  Negation and \<open>abs\<close> are exact. The four operations round the exact result of finite
  operands and follow IEEE 754 on infinities and NaN; \<open>fdiv\<close> is the division of NumPy,
  which divides by zero without raising.
\<close>

fun fneg :: "pyfloat \<Rightarrow> pyfloat" where
  "fneg (Fin x) = Fin (- x)"
| "fneg PInf = NInf"
| "fneg NInf = PInf"
| "fneg NaN = NaN"

fun fabs :: "pyfloat \<Rightarrow> pyfloat" where
  "fabs (Fin x) = Fin \<bar>x\<bar>"
| "fabs PInf = PInf"
| "fabs NInf = PInf"
| "fabs NaN = NaN"

fun fadd :: "arith \<Rightarrow> pyfloat \<Rightarrow> pyfloat \<Rightarrow> pyfloat" where
  "fadd F (Fin x) (Fin y) = rnd F (x + y)"
| "fadd F NaN y = NaN"
| "fadd F x NaN = NaN"
| "fadd F PInf NInf = NaN"
| "fadd F NInf PInf = NaN"
| "fadd F PInf y = PInf"
| "fadd F x PInf = PInf"
| "fadd F NInf y = NInf"
| "fadd F x NInf = NInf"

definition fsub :: "arith \<Rightarrow> pyfloat \<Rightarrow> pyfloat \<Rightarrow> pyfloat" where
  "fsub F x y = fadd F x (fneg y)"

fun fsign :: "pyfloat \<Rightarrow> int" where
  "fsign (Fin x) = (if x < 0 then - 1 else if x = 0 then 0 else 1)"
| "fsign PInf = 1"
| "fsign NInf = - 1"
| "fsign NaN = 0"

definition inf_of_sign :: "int \<Rightarrow> pyfloat" where
  "inf_of_sign s = (if s = 0 then NaN else if 0 < s then PInf else NInf)"

fun fmul :: "arith \<Rightarrow> pyfloat \<Rightarrow> pyfloat \<Rightarrow> pyfloat" where
  "fmul F (Fin x) (Fin y) = rnd F (x * y)"
| "fmul F NaN y = NaN"
| "fmul F x NaN = NaN"
| "fmul F x y = inf_of_sign (fsign x * fsign y)"

fun fdiv :: "arith \<Rightarrow> pyfloat \<Rightarrow> pyfloat \<Rightarrow> pyfloat" where
  "fdiv F (Fin x) (Fin y) = (if y = 0 then inf_of_sign (fsign (Fin x)) else rnd F (x / y))"
| "fdiv F NaN y = NaN"
| "fdiv F x NaN = NaN"
| "fdiv F (Fin x) y = Fin 0"
| "fdiv F x (Fin y) = (if y < 0 then fneg x else x)"
| "fdiv F x y = NaN"

text \<open>
  On Python floats, \<open>/\<close> raises \<open>ZeroDivisionError\<close> when the divisor is zero, \<open>**\<close>
  raises \<open>OverflowError\<close> when the power of a finite base overflows, and \<open>int\<close> raises
  \<open>OverflowError\<close> on an infinity and \<open>ValueError\<close> on NaN.
\<close>

definition py_div :: "arith \<Rightarrow> pyfloat \<Rightarrow> pyfloat \<Rightarrow> error + pyfloat" where
  "py_div F x y = (if y = Fin 0 then Inl ZeroDivisionError else Inr (fdiv F x y))"

definition py_pow :: "arith \<Rightarrow> pyfloat \<Rightarrow> int \<Rightarrow> error + pyfloat" where
  "py_pow F x n =
     (case x of
        Fin a \<Rightarrow> (case fpow F x n of
                    PInf \<Rightarrow> Inl OverflowError
                  | NInf \<Rightarrow> Inl OverflowError
                  | r \<Rightarrow> Inr r)
      | _ \<Rightarrow> Inr (fpow F x n))"

definition int_of_float :: "pyfloat \<Rightarrow> error + int" where
  "int_of_float x =
     (case x of
        Fin v \<Rightarrow> Inr (py_int v)
      | PInf \<Rightarrow> Inl OverflowError
      | NInf \<Rightarrow> Inl OverflowError
      | NaN \<Rightarrow> Inl ValueError)"

text \<open>A two-dimensional array of doubles, its entries in row-major order, and its sum.\<close>

record farray =
  frows :: nat
  fcols :: nat
  fent :: "nat \<Rightarrow> nat \<Rightarrow> pyfloat"

definition entries :: "farray \<Rightarrow> pyfloat list" where
  "entries A = concat (map (\<lambda>i. map (\<lambda>j. fent A i j) [0..<fcols A]) [0..<frows A])"

definition np_sum_fl :: "arith \<Rightarrow> farray \<Rightarrow> pyfloat" where
  "np_sum_fl F A = fsum F (entries A)"

text \<open>
  \<open>center_x\<close> and \<open>center_y\<close> on doubles: \<open>center_value\<close> is the double computed for
  \<open>(align - misalign) * defocus / focus * pixels_per_mm\<close>, which \<open>int\<close> truncates.
\<close>

definition defocus_fl :: "arith \<Rightarrow> beam \<Rightarrow> pyfloat" where
  "defocus_fl F p = fsub F (Fin (focus p)) (Fin (z_position p))"

definition center_value :: "arith \<Rightarrow> beam \<Rightarrow> real \<Rightarrow> real \<Rightarrow> pyfloat" where
  "center_value F p al mis =
     fmul F (fdiv F (fmul F (fsub F (Fin al) (Fin mis)) (defocus_fl F p)) (Fin (focus p)))
       (Fin (pixels_per_mm p))"

definition center_x_fl :: "arith \<Rightarrow> beam \<Rightarrow> error + int" where
  "center_x_fl F p =
     (if focus p = 0 then Inl ZeroDivisionError
      else (case int_of_float (center_value F p (align_x p) (misalign_x p)) of
              Inl e \<Rightarrow> Inl e
            | Inr c_x \<Rightarrow> Inr (min \<bar>c_x\<bar> 96 * np_sign c_x)))"

definition center_y_fl :: "arith \<Rightarrow> beam \<Rightarrow> error + int" where
  "center_y_fl F p =
     (if focus p = 0 then Inl ZeroDivisionError
      else (case int_of_float (center_value F p (align_y p) (misalign_y p)) of
              Inl e \<Rightarrow> Inl e
            | Inr c_y \<Rightarrow> Inr (min \<bar>c_y\<bar> 49 * np_sign c_y)))"

text \<open>
  The variances on doubles. Both \<open>**\<close> are on Python floats and may raise; \<open>10**-2\<close> and
  \<open>10**-16\<close> are the doubles \<open>fpow 10 (-2)\<close> and \<open>fpow 10 (-16)\<close>.
\<close>

definition sigma2_mm_fl :: "arith \<Rightarrow> beam \<Rightarrow> real \<Rightarrow> real \<Rightarrow> real \<Rightarrow> real \<Rightarrow> error + pyfloat" where
  "sigma2_mm_fl F p al mis st ast =
     (case py_pow F
             (fmul F
                (fadd F
                   (fadd F (defocus_fl F p)
                      (fmul F (fabs (fsub F (Fin al) (Fin mis))) (fpow F (Fin 10) (- 2))))
                   (fabs (fadd F (Fin st) (Fin ast))))
                (Fin (convergence p))) 2 of
        Inl e \<Rightarrow> Inl e
      | Inr t \<Rightarrow>
          (case py_pow F (fadd F (Fin 1) (fmul F (Fin 100) (Fin (beam_current p)))) 3 of
             Inl e \<Rightarrow> Inl e
           | Inr c \<Rightarrow> Inr (fadd F t (fdiv F (fmul F (fpow F (Fin 10) (- 16)) c) (Fin 4)))))"

definition sigma2_x_mm_fl :: "arith \<Rightarrow> beam \<Rightarrow> error + pyfloat" where
  "sigma2_x_mm_fl F p = sigma2_mm_fl F p (align_x p) (misalign_x p) (stigm_x p) (astigm_x p)"

definition sigma2_y_mm_fl :: "arith \<Rightarrow> beam \<Rightarrow> error + pyfloat" where
  "sigma2_y_mm_fl F p = sigma2_mm_fl F p (align_y p) (misalign_y p) (stigm_y p) (astigm_y p)"

definition to_px :: "arith \<Rightarrow> beam \<Rightarrow> error + pyfloat \<Rightarrow> error + pyfloat" where
  "to_px F p s2 =
     (case s2 of
        Inl e \<Rightarrow> Inl e
      | Inr s \<Rightarrow> (case py_pow F (Fin (pixels_per_mm p)) 2 of
                    Inl e \<Rightarrow> Inl e
                  | Inr q \<Rightarrow> Inr (fmul F s q)))"

definition sigma2_x_px_fl :: "arith \<Rightarrow> beam \<Rightarrow> error + pyfloat" where
  "sigma2_x_px_fl F p = to_px F p (sigma2_x_mm_fl F p)"

definition sigma2_y_px_fl :: "arith \<Rightarrow> beam \<Rightarrow> error + pyfloat" where
  "sigma2_y_px_fl F p = to_px F p (sigma2_y_mm_fl F p)"

text \<open>
  The angle, the grid and the kernel on doubles. Inside \<open>gauss\<close> the operations are
  NumPy's and raise nothing, except \<open>1/sigma2\<close>, a division of Python floats, which raises
  when a variance is \<open>0.0\<close>. The grid is divided by its sum without a check.
\<close>

definition astig_angle_fl :: "arith \<Rightarrow> beam \<Rightarrow> error + pyfloat" where
  "astig_angle_fl F p =
     (case py_div F (fadd F (Fin (stigm_x p)) (Fin (astigm_x p)))
                    (fadd F (Fin (stigm_y p)) (Fin (astigm_y p))) of
        Inl e \<Rightarrow> Inl e
      | Inr q \<Rightarrow> Inr (fdiv F (farctan F q) (Fin 2)))"

definition gauss_fl :: "arith \<Rightarrow> beam \<Rightarrow> pyfloat \<Rightarrow> pyfloat \<Rightarrow> pyfloat \<Rightarrow> pyfloat \<Rightarrow> pyfloat \<Rightarrow> pyfloat" where
  "gauss_fl F p a s_x s_y i j =
     fexp F
       (fadd F
          (fsub F
             (fmul F (fneg (fpow F (fsub F j (fdiv F (Fin (real (size_k p))) (Fin 2))) 2))
                (fadd F (fdiv F (fpow F (fcos F a) 2) s_x) (fdiv F (fpow F (fsin F a) 2) s_y)))
             (fmul F (fpow F (fsub F i (fdiv F (Fin (real (size_k p))) (Fin 2))) 2)
                (fadd F (fdiv F (fpow F (fsin F a) 2) s_x) (fdiv F (fpow F (fcos F a) 2) s_y))))
          (fmul F
             (fmul F
                (fmul F (fsub F i (fdiv F (Fin (real (size_k p))) (Fin 2)))
                        (fsub F j (fdiv F (Fin (real (size_k p))) (Fin 2))))
                (fsin F (fmul F (Fin 2) a)))
             (fsub F (fdiv F (Fin 1) s_y) (fdiv F (Fin 1) s_x))))"

definition raw_gauss_fl :: "arith \<Rightarrow> beam \<Rightarrow> pyfloat \<Rightarrow> pyfloat \<Rightarrow> pyfloat \<Rightarrow> farray" where
  "raw_gauss_fl F p a s_x s_y =
     \<lparr>frows = size_k p, fcols = size_k p,
      fent = (\<lambda>i j. gauss_fl F p a s_x s_y (Fin (real i)) (Fin (real j)))\<rparr>"

definition div_by_sum :: "arith \<Rightarrow> farray \<Rightarrow> farray" where
  "div_by_sum F A = A\<lparr>fent := (\<lambda>i j. fdiv F (fent A i j) (np_sum_fl F A))\<rparr>"

definition beam_intensity_fl :: "arith \<Rightarrow> beam \<Rightarrow> error + farray" where
  "beam_intensity_fl F p =
     (case astig_angle_fl F p of
        Inl e \<Rightarrow> Inl e
      | Inr a \<Rightarrow>
     (case sigma2_x_px_fl F p of
        Inl e \<Rightarrow> Inl e
      | Inr s_x \<Rightarrow>
     (case sigma2_y_px_fl F p of
        Inl e \<Rightarrow> Inl e
      | Inr s_y \<Rightarrow>
          if s_y = Fin 0 \<or> s_x = Fin 0 then Inl ZeroDivisionError
          else Inr (div_by_sum F (raw_gauss_fl F p a s_x s_y)))))"

section \<open>An arithmetic with the range of doubles\<close>

text \<open>
  The arithmetic used on concrete inputs: every operation returns the exact result, cut
  to the range of doubles (an infinity from \<open>2^1024\<close> on, zero below \<open>2^-1075\<close>). It
  rounds nothing; the concrete inputs below are chosen so that the doubles of the machine
  give the same outcome.
\<close>

definition clip :: "real \<Rightarrow> pyfloat" where
  "clip x =
     (if 2 ^ 1024 \<le> x then PInf
      else if x \<le> - (2 ^ 1024) then NInf
      else if \<bar>x\<bar> < 1 / 2 ^ 1075 then Fin 0
      else Fin x)"

fun range_pow :: "pyfloat \<Rightarrow> int \<Rightarrow> pyfloat" where
  "range_pow (Fin x) n =
     (if 0 \<le> n then clip (x ^ nat n)
      else if x = 0 then PInf
      else clip ((1 / x) ^ nat (- n)))"
| "range_pow NaN n = (if n = 0 then Fin 1 else NaN)"
| "range_pow PInf n = (if n = 0 then Fin 1 else if 0 < n then PInf else Fin 0)"
| "range_pow NInf n =
     (if n = 0 then Fin 1 else if n < 0 then Fin 0 else if even n then PInf else NInf)"

fun range_exp :: "pyfloat \<Rightarrow> pyfloat" where
  "range_exp (Fin x) = clip (exp x)"
| "range_exp PInf = PInf"
| "range_exp NInf = Fin 0"
| "range_exp NaN = NaN"

fun range_cos :: "pyfloat \<Rightarrow> pyfloat" where
  "range_cos (Fin x) = Fin (cos x)"
| "range_cos x = NaN"

fun range_sin :: "pyfloat \<Rightarrow> pyfloat" where
  "range_sin (Fin x) = Fin (sin x)"
| "range_sin x = NaN"

fun range_arctan :: "pyfloat \<Rightarrow> pyfloat" where
  "range_arctan (Fin x) = Fin (arctan x)"
| "range_arctan PInf = Fin (pi / 2)"
| "range_arctan NInf = Fin (- (pi / 2))"
| "range_arctan NaN = NaN"

definition range_base :: arith where
  "range_base =
     \<lparr>rnd = clip, fpow = range_pow, fexp = range_exp, fcos = range_cos, fsin = range_sin,
      farctan = range_arctan, fsum = (\<lambda>xs. NaN)\<rparr>"

definition range_arith :: arith where
  "range_arith = range_base\<lparr>fsum := foldl (fadd range_base) (Fin 0)\<rparr>"

section \<open>Concrete inputs\<close>

text \<open>
  A beam as \<open>__init__\<close> may draw it, at the default magnification and resolution
  (\<open>pixels_per_mm = 256/57.15*100\<close>).
\<close>

definition sample_beam :: beam where
  "sample_beam = \<lparr>z_position = 10, pixels_per_mm = 256 / (5715 / 100) * 100,
     astigm_x = 1 / 4, astigm_y = - (1 / 4), misalign_x = - (1 / 20), misalign_y = 1 / 10,
     focus = 1 / 10, stigm_x = 0, stigm_y = 0, align_x = 0, align_y = 0,
     beam_current = 1, convergence = 1 / 100, size_k = 64\<rparr>"

text \<open>
  The same beam with \<open>stigm_y + astigm_y = 0\<close> and \<open>stigm_x + astigm_x = 1/4\<close>; with no
  astigmatism at all; and with offsets of equal magnitude along both axes.
\<close>

definition zero_denominator_beam :: beam where
  "zero_denominator_beam =
     sample_beam\<lparr>astigm_x := 1 / 4, stigm_x := 0, astigm_y := 0, stigm_y := 0\<rparr>"



text \<open>
  A reference image, and a microscope as \<open>__init__\<close> and \<open>sample_loading\<close> leave it
  (resolution 256 x 192, an empty frame, line 0, speed 1), with the beam on at full
  voltage and scanning started; the draws of the noise are all 1/2.
\<close>

definition sample_image :: ndarray where
  "sample_image = \<lparr>nrows = 1024, ncols = 1280, ent = (\<lambda>i j. real ((i + j) mod 256))\<rparr>"

definition sample_scope :: microscope where
  "sample_scope =
     \<lparr>mags = [100], curr_mag = 0, images = [''SE'' \<mapsto> [100 \<mapsto> sample_image]],
      resolution = (256, 192), frame = np_zeros 256 192, scan_active = True, line = 0,
      speed = 1, beam_on = True, hv_target = 15, h_v = 15, beam = sample_beam,
      detector = ''SE'', contrast_Slider = 30, brightness_Slider = 250,
      start_stop_text = ''Stop scanning'', timer_active = True, timer_interval = 10\<rparr>"




definition idle_scope :: microscope where
  "idle_scope =
     sample_scope\<lparr>scan_active := False, line := 50, start_stop_text := ''Start scanning'',
                   timer_active := False\<rparr>"

text \<open>
  The sample beam with \<open>align_x = 2^1023\<close> and \<open>misalign_x = - 2^1023\<close>, two finite doubles
  whose difference overflows.
\<close>

definition overflow_beam :: beam where
  "overflow_beam = sample_beam\<lparr>align_x := 2 ^ 1023, misalign_x := - (2 ^ 1023)\<rparr>"

section \<open>Properties of the beam\<close>

subsection \<open>Truncation and clamping of the beam centre\<close>

lemma py_int_props:
  "\<bar>real_of_int (py_int v)\<bar> \<le> \<bar>v\<bar> \<and> \<bar>v\<bar> < \<bar>real_of_int (py_int v)\<bar> + 1 \<and>
   0 \<le> real_of_int (py_int v) * v"
proof (cases "v < 0")
  case True
  then have c: "real_of_int \<lceil>v\<rceil> \<le> 0" by (simp add: ceiling_le_iff)
  have "v \<le> real_of_int \<lceil>v\<rceil>" "real_of_int \<lceil>v\<rceil> < v + 1" by linarith+
  moreover have "0 \<le> real_of_int \<lceil>v\<rceil> * v"
    using c True by (simp add: mult_nonpos_nonpos)
  ultimately show ?thesis using True c by (simp add: py_int_def)
next
  case False
  then have "0 \<le> real_of_int \<lfloor>v\<rfloor>" by simp
  moreover have "real_of_int \<lfloor>v\<rfloor> \<le> v" "v < real_of_int \<lfloor>v\<rfloor> + 1" by linarith+
  ultimately show ?thesis using False by (simp add: py_int_def)
qed

lemma clamp_sign: "min \<bar>c\<bar> k * np_sign c = min \<bar>c\<bar> k * sgn c"
  by (simp add: np_sign_def sgn_if)

lemma clamp_bound: "0 \<le> k \<Longrightarrow> \<bar>min \<bar>c\<bar> k * sgn c\<bar> \<le> k" for c k :: int
  by (auto simp: sgn_if min_def)

subsection \<open>The variances are positive\<close>





lemma sum_list_pos_upt:
  fixes f :: "nat \<Rightarrow> real"
  assumes "0 < n" "\<And>i. i < n \<Longrightarrow> 0 < f i"
  shows "0 < (\<Sum>i\<leftarrow>[0..<n]. f i)"
  using assms
proof (induction n)
  case 0
  then show ?case by simp
next
  case (Suc n)
  show ?case
  proof (cases "n = 0")
    case True
    then show ?thesis using Suc.prems by simp
  next
    case False
    then have "0 < (\<Sum>i\<leftarrow>[0..<n]. f i)" using Suc by simp
    moreover have "0 < f n" using Suc.prems by simp
    ultimately show ?thesis by simp
  qed
qed

lemma sum_list_div_upt:
  fixes f :: "nat \<Rightarrow> real"
  shows "(\<Sum>i\<leftarrow>[0..<n]. f i / s) = (\<Sum>i\<leftarrow>[0..<n]. f i) / s"
  by (induction n) (simp_all add: add_divide_distrib)

lemma gauss_pos: "0 < gauss p a i j"
  by (simp add: gauss_def)

lemma raw_gauss_shape [simp]:
  "nrows (raw_gauss p a) = size_k p" "ncols (raw_gauss p a) = size_k p"
  by (simp_all add: raw_gauss_def fromfunction_def)

lemma raw_gauss_ent [simp]: "ent (raw_gauss p a) i j = gauss p a (real i) (real j)"
  by (simp add: raw_gauss_def fromfunction_def)

lemma np_sum_raw_pos: "0 < size_k p \<Longrightarrow> 0 < np_sum (raw_gauss p a)"
  unfolding np_sum_def by (simp add: sum_list_pos_upt gauss_pos)

subsection \<open>The kernel is normalised\<close>

lemma div_scalar_simps [simp]:
  "ent (np_div_scalar A s) i j = ent A i j / s"
  "nrows (np_div_scalar A s) = nrows A"
  "ncols (np_div_scalar A s) = ncols A"
  by (simp_all add: np_div_scalar_def)

lemma np_sum_div: "np_sum (np_div_scalar A s) = np_sum A / s"
  unfolding np_sum_def np_div_scalar_def by (simp add: sum_list_div_upt)


subsection \<open>The rotation angle\<close>

lemma astig_angle_range:
  assumes "stigm_y p + astigm_y p \<noteq> 0"
  shows "\<exists>a. astig_angle p = Inr a \<and> - (pi / 4) < a \<and> a < pi / 4"
proof -
  let ?q = "(stigm_x p + astigm_x p) / (stigm_y p + astigm_y p)"
  have "- (pi / 2) < arctan ?q" "arctan ?q < pi / 2"
    by (rule arctan_lbound, rule arctan_ubound)
  then have "- (pi / 4) < arctan ?q / 2" "arctan ?q / 2 < pi / 4" by simp_all
  moreover have "astig_angle p = Inr (arctan ?q / 2)"
    using assms by (simp add: astig_angle_def)
  ultimately show ?thesis by blast
qed

text \<open>
  C8, as stated, fails: with \<open>stigm_y + astigm_y = 0\<close> and \<open>stigm_x + astigm_x = 1/4\<close> the
  quotient of the two Python floats raises \<open>ZeroDivisionError\<close>; no angle, and so neither
  \<open>pi/4\<close> nor \<open>-pi/4\<close>, is returned.
\<close>

theorem astig_angle_zero_denominator_counterexample:
  "stigm_y zero_denominator_beam + astigm_y zero_denominator_beam = 0 \<and>
   stigm_x zero_denominator_beam + astigm_x zero_denominator_beam \<noteq> 0 \<and>
   astig_angle zero_denominator_beam = Inl ZeroDivisionError \<and>
   astig_angle zero_denominator_beam \<noteq> Inr (pi / 4) \<and>
   astig_angle zero_denominator_beam \<noteq> Inr (- pi / 4)"
  by (simp add: zero_denominator_beam_def sample_beam_def astig_angle_def)

text \<open>
  C8, amended. When \<open>stigm_y + astigm_y\<close> is exactly 0, the angle computation has no
  special-case guard and raises \<open>ZeroDivisionError\<close>, and so does \<open>beam_intensity\<close>, which
  computes the angle first.
\<close>

theorem astig_angle_raises:
  assumes "stigm_y p + astigm_y p = 0"
  shows "astig_angle p = Inl ZeroDivisionError \<and> beam_intensity p = Inl ZeroDivisionError"
  using assms by (simp add: astig_angle_def beam_intensity_def)

theorem astig_angle_raises_witness:
  "stigm_y zero_denominator_beam + astigm_y zero_denominator_beam = 0 \<and>
   astig_angle zero_denominator_beam = Inl ZeroDivisionError \<and>
   beam_intensity zero_denominator_beam = Inl ZeroDivisionError"
proof -
  have h: "stigm_y zero_denominator_beam + astigm_y zero_denominator_beam = 0"
    by (simp add: zero_denominator_beam_def)
  from astig_angle_raises[OF h] h show ?thesis by blast
qed

subsection \<open>Symmetry of the kernel\<close>







section \<open>Properties of the scan\<close>

subsection \<open>Slices and assignments inside the bounds\<close>

lemma nine_eighths: "9 * r div 8 = r + r div (8::nat)"
  by presburger

lemma py_clip_inside: "0 \<le> k \<Longrightarrow> nat k \<le> n \<Longrightarrow> py_clip n k = nat k"
  by (simp add: py_clip_def)

lemma slice_len_unit: "slice_len s e (Suc 0) = e - s"
  by (simp add: slice_len_def)

lemma np_slice_unit:
  "np_slice A (a0, b0, 1) (a1, b1, 1) =
     Inr \<lparr>nrows = py_clip (nrows A) b0 - py_clip (nrows A) a0,
          ncols = py_clip (ncols A) b1 - py_clip (ncols A) a1,
          ent = (\<lambda>i j. ent A (py_clip (nrows A) a0 + i) (py_clip (ncols A) a1 + j))\<rparr>"
  by (simp add: np_slice_def slice_len_unit)

lemma convolved_slice_ready:
  assumes big: "9 * r0 div 8 \<le> nrows ct" "r1 + r0 div 8 \<le> ncols ct"
    and ab: "0 \<le> a" "a \<le> b" "b \<le> int r1"
  shows "np_slice ct (int (r0 div 8), int (9 * r0 div 8), 1) (a + int (r0 div 8), b + int (r0 div 8), 1) =
     Inr \<lparr>nrows = r0, ncols = nat (b - a),
          ent = (\<lambda>i j. ent ct (r0 div 8 + i) (nat a + r0 div 8 + j))\<rparr>"
proof -
  have r1: "py_clip (nrows ct) (int (r0 div 8)) = r0 div 8"
    using big(1) by (subst py_clip_inside) (simp_all add: nine_eighths)
  have r2: "py_clip (nrows ct) (int (9 * r0 div 8)) = 9 * r0 div 8"
    using big(1) by (subst py_clip_inside) simp_all
  have c1: "py_clip (ncols ct) (a + int (r0 div 8)) = nat a + r0 div 8"
    using big(2) ab by (subst py_clip_inside) (simp_all add: nat_add_distrib)
  have c2: "py_clip (ncols ct) (b + int (r0 div 8)) = nat b + r0 div 8"
    using big(2) ab by (subst py_clip_inside) (simp_all add: nat_add_distrib)
  have w: "nat b + r0 div 8 - (nat a + r0 div 8) = nat (b - a)"
    using ab by simp
  show ?thesis
    unfolding np_slice_unit r1 r2 c1 c2 w by (simp add: nine_eighths)
qed

lemma scan_slice_ready:
  assumes ready: "scan_ready convolution m"
    and ct: "convolved_T convolution m = Inr ct"
    and ab: "0 \<le> a" "a \<le> b" "b \<le> int (snd (resolution m))"
  shows "\<exists>v. scan_slice convolution noise m a b = Inr v \<and>
             nrows v = fst (resolution m) \<and> ncols v = nat (b - a) \<and>
             (\<forall>i<fst (resolution m). \<forall>j<nat (b - a).
                ent v i j =
                  slice_value m (ent ct (fst (resolution m) div 8 + i)
                                   (nat a + fst (resolution m) div 8 + j)) (noise i j))"
proof -
  let ?r0 = "fst (resolution m)"
  have big: "9 * ?r0 div 8 \<le> nrows ct" "snd (resolution m) + ?r0 div 8 \<le> ncols ct"
    using ready ct by (simp_all add: scan_ready_def)
  have par: "hv_target m \<noteq> 0" "\<not> beam_current (beam m) < 0" "\<not> speed m < 0" "speed m \<noteq> 0"
    "\<not> b - a < 0"
    using ready ab by (simp_all add: scan_ready_def)
  note sl = convolved_slice_ready[OF big ab]
  define v where "v = \<lparr>nrows = ?r0, ncols = nat (b - a),
      ent = (\<lambda>i j. of_bool (beam_on m) * h_v m / hv_target m *
               (ent ct (?r0 div 8 + bc_idx ?r0 i) (nat a + ?r0 div 8 + bc_idx (nat (b - a)) j)
                  * beam_current (beam m)
                + 10 * sqrt (beam_current (beam m)) / sqrt (real_of_int (speed m))
                  * noise (bc_idx ?r0 i) (bc_idx (nat (b - a)) j))
               * (real_of_int (contrast_Slider m) / 30) ^ 2
               + real_of_int (brightness_Slider m) - 250)\<rparr>"
  have "scan_slice convolution noise m a b = Inr v"
    unfolding scan_slice_def ct sum.case sl v_def using par
    by (simp add: np_add_def np_map_def np_rand_def bc_dim_def)
  moreover have "ent v i j = slice_value m (ent ct (?r0 div 8 + i) (nat a + ?r0 div 8 + j)) (noise i j)"
    if "i < ?r0" "j < nat (b - a)" for i j
  proof -
    have "bc_idx ?r0 i = i" "bc_idx (nat (b - a)) j = j"
      using that by (auto simp: bc_idx_def)
    then show ?thesis by (simp add: v_def slice_value_def)
  qed
  moreover have "nrows v = ?r0" "ncols v = nat (b - a)" by (simp_all add: v_def)
  ultimately show ?thesis by blast
qed

lemma assign_cols_ready:
  assumes "nrows V = nrows F" "ncols V = nat (b - a)" "0 \<le> a" "a \<le> b" "b \<le> int (ncols F)"
  shows "\<exists>f. assign_cols F a b V = Inr f \<and> nrows f = nrows F \<and> ncols f = ncols F \<and>
             (\<forall>i j. ent f i j =
                (if nat a \<le> j \<and> j < nat b
                 then ent V (bc_idx (nrows V) i) (bc_idx (ncols V) (j - nat a))
                 else ent F i j))"
proof -
  have s: "py_clip (ncols F) a = nat a" "py_clip (ncols F) b = nat b"
    using assms by (simp_all add: py_clip_inside)
  have w: "nat b - nat a = nat (b - a)" "nat a + nat (b - a) = nat b" using assms by simp_all
  show ?thesis
    unfolding assign_cols_def s Let_def slice_len_unit[unfolded One_nat_def[symmetric]] w
    using assms(1,2) by simp
qed

subsection \<open>One tick\<close>

lemma convolved_T_frame_line [simp]:
  "convolved_T convolution (m\<lparr>frame := f, line := l\<rparr>) = convolved_T convolution m"
  "convolved_T convolution (m\<lparr>line := l\<rparr>) = convolved_T convolution m"
  "convolved_T convolution (m\<lparr>frame := f\<rparr>) = convolved_T convolution m"
  by (simp_all add: convolved_T_def cong: option.case_cong sum.case_cong)

lemma scan_slice_frame [simp]:
  "scan_slice convolution noise (m\<lparr>frame := f\<rparr>) a b = scan_slice convolution noise m a b"
  by (simp add: scan_slice_def cong: sum.case_cong if_cong)

lemma scan_ready_update:
  assumes "scan_ready convolution m" "nrows f = nrows (frame m)" "ncols f = ncols (frame m)"
  shows "scan_ready convolution (m\<lparr>frame := f, line := l\<rparr>)"
  using assms by (simp add: scan_ready_def cong: sum.case_cong)

lemma scan_ready_line:
  "scan_ready convolution m \<Longrightarrow> scan_ready convolution (m\<lparr>line := l\<rparr>)"
  by (simp add: scan_ready_def cong: sum.case_cong)

lemma scan_ready_convolved:
  "scan_ready convolution m \<Longrightarrow> \<exists>ct. convolved_T convolution m = Inr ct"
  by (auto simp: scan_ready_def split: sum.splits)

lemma scan_cols_Some:
  assumes "scan_cols m = Some (a, b)" "0 \<le> line m" "speed m \<le> 10"
  shows "a = line m \<and> 0 \<le> a \<and> a < b \<and> b \<le> int (snd (resolution m)) \<and>
         b = (if line m + scan_step m < int (snd (resolution m)) - 1
              then line m + scan_step m else int (snd (resolution m)))"
  using assms by (auto simp: scan_cols_def scan_step_def split: if_splits)

lemma scan_cols_None:
  assumes "speed m \<le> 11"
  shows "scan_cols m = None \<longleftrightarrow> int (snd (resolution m)) - 1 \<le> line m"
  using assms by (auto simp: scan_cols_def scan_step_def)

lemma scanning_reset:
  assumes "0 < fst (resolution m)" "scan_cols m = None"
  shows "scanning convolution noise m = Inr (m\<lparr>line := 0\<rparr>)"
  using assms by (simp add: scanning_def)

lemma scanning_write:
  assumes ready: "scan_ready convolution m" and l: "0 \<le> line m"
    and cols: "scan_cols m = Some (a, b)"
    and ct: "convolved_T convolution m = Inr ct"
  obtains v f where
    "scan_slice convolution noise m a b = Inr v"
    "nrows v = fst (resolution m)" "ncols v = nat (b - a)"
    "\<forall>i<fst (resolution m). \<forall>j<nat (b - a).
        ent v i j = slice_value m (ent ct (fst (resolution m) div 8 + i)
                                   (nat a + fst (resolution m) div 8 + j)) (noise i j)"
    "scanning convolution noise m = Inr (m\<lparr>frame := f, line := line m + scan_step m\<rparr>)"
    "nrows f = nrows (frame m)" "ncols f = ncols (frame m)"
    "\<forall>i j. ent f i j =
        (if nat a \<le> j \<and> j < nat b
         then ent v (bc_idx (nrows v) i) (bc_idx (ncols v) (j - nat a))
         else ent (frame m) i j)"
proof -
  have sp: "speed m \<le> 10" and fr: "nrows (frame m) = fst (resolution m)"
    "ncols (frame m) = snd (resolution m)" and r0: "0 < fst (resolution m)"
    using ready by (simp_all add: scan_ready_def)
  from scan_cols_Some[OF cols l sp]
  have ab: "0 \<le> a" "a \<le> b" "b \<le> int (snd (resolution m))" by simp_all
  from scan_slice_ready[OF ready ct ab, of noise]
  obtain v where v: "scan_slice convolution noise m a b = Inr v"
    "nrows v = fst (resolution m)" "ncols v = nat (b - a)"
    "\<forall>i<fst (resolution m). \<forall>j<nat (b - a).
        ent v i j = slice_value m (ent ct (fst (resolution m) div 8 + i)
                                   (nat a + fst (resolution m) div 8 + j)) (noise i j)"
    by blast
  have "nrows v = nrows (frame m)" using v(2) fr by simp
  from assign_cols_ready[OF this v(3) ab(1,2)] ab(3) fr
  obtain f where f: "assign_cols (frame m) a b v = Inr f" "nrows f = nrows (frame m)"
    "ncols f = ncols (frame m)"
    "\<forall>i j. ent f i j =
        (if nat a \<le> j \<and> j < nat b
         then ent v (bc_idx (nrows v) i) (bc_idx (ncols v) (j - nat a))
         else ent (frame m) i j)"
    by auto
  have "scanning convolution noise m = Inr (m\<lparr>frame := f, line := line m + scan_step m\<rparr>)"
    using r0 by (simp add: scanning_def cols v(1) f(1))
  from that[OF v this f(2,3,4)] show ?thesis .
qed

lemma scanning_step:
  assumes ready: "scan_ready convolution m" and l: "0 \<le> line m"
  shows "\<exists>m'. scanning convolution noise m = Inr m' \<and> scan_ready convolution m' \<and>
              resolution m' = resolution m \<and> speed m' = speed m \<and>
              line m' = (if line m < int (snd (resolution m)) - 1
                         then line m + scan_step m else 0)"
proof (cases "scan_cols m")
  case None
  have sp: "speed m \<le> 11" and r0: "0 < fst (resolution m)"
    using ready by (simp_all add: scan_ready_def)
  from scanning_reset[OF r0 None] scan_cols_None[OF sp] None scan_ready_line[OF ready]
  show ?thesis by simp
next
  case (Some ab)
  obtain a b where ab: "scan_cols m = Some (a, b)" using Some by (cases ab) simp
  have sp: "speed m \<le> 11" using ready by (simp add: scan_ready_def)
  obtain ct where ct: "convolved_T convolution m = Inr ct"
    using scan_ready_convolved[OF ready] by blast
  obtain f where f: "scanning convolution noise m = Inr (m\<lparr>frame := f, line := line m + scan_step m\<rparr>)"
    "nrows f = nrows (frame m)" "ncols f = ncols (frame m)"
    by (rule scanning_write[OF ready l ab ct, of noise]) blast
  have "line m < int (snd (resolution m)) - 1"
    using scan_cols_None[OF sp] ab by simp
  with f scan_ready_update[OF ready f(2,3)] show ?thesis by simp
qed



subsection \<open>Repeated ticks\<close>



lemma ticks_trace_step10:
  assumes "scan_ready convolution m" "line m = 0" "speed m = 1" "snd (resolution m) = 192"
    and "n \<le> 20"
  shows "\<exists>m'. ticks convolution noise n m = Inr m' \<and> scan_ready convolution m' \<and>
              resolution m' = resolution m \<and> speed m' = 1 \<and> line m' = 10 * int n"
  using assms(5)
proof (induction n)
  case 0
  then show ?case using assms by simp
next
  case (Suc n)
  then obtain m1 where m1: "ticks convolution noise n m = Inr m1" "scan_ready convolution m1"
    "resolution m1 = resolution m" "speed m1 = 1" "line m1 = 10 * int n"
    by auto
  have l: "0 \<le> line m1" using m1(5) by simp
  from scanning_step[OF m1(2) l, of "noise n"]
  obtain m2 where m2: "scanning convolution (noise n) m1 = Inr m2" "scan_ready convolution m2"
    "resolution m2 = resolution m1" "speed m2 = speed m1"
    "line m2 = (if line m1 < int (snd (resolution m1)) - 1 then line m1 + scan_step m1 else 0)"
    by blast
  have "line m1 < int (snd (resolution m1)) - 1" using Suc.prems m1 assms(4) by simp
  then have "line m2 = 10 * int (Suc n)" using m2(5) m1(4,5) by (simp add: scan_step_def)
  with m1 m2 show ?case by simp
qed

lemma ticks_reset_step10:
  assumes "scan_ready convolution m" "line m = 0" "speed m = 1" "snd (resolution m) = 192"
  shows "\<exists>m'. ticks convolution noise 21 m = Inr m' \<and> scan_ready convolution m' \<and>
              resolution m' = resolution m \<and> speed m' = 1 \<and> line m' = 0"
proof -
  from ticks_trace_step10[OF assms, of 20 noise]
  obtain m1 where m1: "ticks convolution noise 20 m = Inr m1" "scan_ready convolution m1"
    "resolution m1 = resolution m" "speed m1 = 1" "line m1 = 200"
    by auto
  have l: "0 \<le> line m1" using m1(5) by simp
  from scanning_step[OF m1(2) l, of "noise 20"]
  obtain m2 where m2: "scanning convolution (noise 20) m1 = Inr m2" "scan_ready convolution m2"
    "resolution m2 = resolution m1" "speed m2 = speed m1"
    "line m2 = (if line m1 < int (snd (resolution m1)) - 1 then line m1 + scan_step m1 else 0)"
    by blast
  have "line m2 = 0" using m2(5) m1 assms(4) by simp
  moreover have "ticks convolution noise 21 m = Inr m2"
    using m1(1) m2(1) by (simp add: eval_nat_numeral)
  ultimately show ?thesis using m1 m2 by simp
qed


subsection \<open>The concrete microscopes are ready\<close>



lemma circular_convolution_shape [simp]:
  "nrows (circular_convolution A K) = nrows A" "ncols (circular_convolution A K) = ncols A"
  by (simp_all add: circular_convolution_def)





subsection \<open>The composition of the output slice\<close>



subsection \<open>Start and stop\<close>

text \<open>
  C6, as stated, fails: \<open>start_stop\<close> on a stopped microscope whose line is 50 starts the
  scan and leaves the line at 50; it does not set it to 0.
\<close>

theorem start_keeps_line_counterexample:
  "\<not> scan_active idle_scope \<and> line idle_scope = 50 \<and>
   scan_active (start_stop idle_scope) \<and> line (start_stop idle_scope) = 50 \<and>
   line (start_stop idle_scope) \<noteq> 0"
  by (simp add: start_stop_def idle_scope_def sample_scope_def)

text \<open>
  C6, amended. \<open>start_stop\<close> toggles between idle and scanning (and starts or stops the
  timer accordingly); in both directions it leaves the line and the frame unchanged.
\<close>

theorem start_stop_toggles:
  "scan_active (start_stop m) = (\<not> scan_active m) \<and>
   timer_active (start_stop m) = (\<not> scan_active m) \<and>
   line (start_stop m) = line m \<and> frame (start_stop m) = frame m"
  by (simp add: start_stop_def)

subsection \<open>A pass over the frame\<close>




subsection \<open>The range of the line\<close>




subsection \<open>The effect of a tick on the frame\<close>




section \<open>Properties of the beam in double arithmetic\<close>

subsection \<open>The beam centre\<close>

lemma rnd_range [simp]: "rnd range_arith = clip" "fpow range_arith = range_pow"
  "fexp range_arith = range_exp" "fcos range_arith = range_cos" "fsin range_arith = range_sin"
  "farctan range_arith = range_arctan"
  by (simp_all add: range_arith_def range_base_def)

lemma clip_Fin: "1 / 2 ^ 1075 \<le> \<bar>x\<bar> \<Longrightarrow> \<bar>x\<bar> < 2 ^ 1024 \<Longrightarrow> clip x = Fin x"
  by (auto simp: clip_def)

lemma sample_center_value:
  "center_value range_arith sample_beam (align_x sample_beam) (misalign_x sample_beam)
     = Fin (- (2534400 / 1143))"
  "center_value range_arith sample_beam (align_y sample_beam) (misalign_y sample_beam)
     = Fin (5068800 / 1143)"
  unfolding center_value_def defocus_fl_def fsub_def sample_beam_def
  by (simp_all add: clip_def)

lemma overflow_center_value:
  "center_value range_arith overflow_beam (align_x overflow_beam) (misalign_x overflow_beam) = NInf"
  unfolding center_value_def defocus_fl_def fsub_def overflow_beam_def sample_beam_def
  by (simp add: clip_def inf_of_sign_def)

text \<open>
  C3, as stated, fails: with \<open>focus = 0.1\<close>, \<open>align_x = 2^1023\<close> and
  \<open>misalign_x = - 2^1023\<close> the difference overflows, the product is \<open>-inf\<close>, and
  \<open>int\<close> raises \<open>OverflowError\<close>: no clamped centre is returned.
\<close>

theorem center_overflow_counterexample:
  "focus overflow_beam \<noteq> 0 \<and> center_x_fl range_arith overflow_beam = Inl OverflowError"
  using overflow_center_value
  by (simp add: center_x_fl_def int_of_float_def overflow_beam_def sample_beam_def)

text \<open>
  C3, amended. For \<open>focus\<close> not zero, let \<open>v\<close> be the double computed for
  \<open>(align - misalign) * defocus / focus * pixels_per_mm\<close>. When \<open>v\<close> is finite, \<open>center_x\<close>
  is \<open>v\<close> truncated toward zero (the integer \<open>t\<close> of the same sign with
  \<open>|t| \<le> |v| < |t| + 1\<close>) and clamped in magnitude to 96 with its sign kept, and \<open>center_y\<close>
  is the analogous value clamped to 49. When \<open>v\<close> is an infinity the call raises
  \<open>OverflowError\<close>, and when it is NaN, \<open>ValueError\<close>. Every centre that is returned has
  \<open>|center_x| \<le> 96\<close> and \<open>|center_y| \<le> 49\<close>.
\<close>

theorem center_float:
  assumes "focus p \<noteq> 0"
  shows
    "(\<forall>v. center_value F p (align_x p) (misalign_x p) = Fin v \<longrightarrow>
          center_x_fl F p = Inr (min \<bar>py_int v\<bar> 96 * sgn (py_int v)) \<and>
          \<bar>real_of_int (py_int v)\<bar> \<le> \<bar>v\<bar> \<and> \<bar>v\<bar> < \<bar>real_of_int (py_int v)\<bar> + 1 \<and>
          0 \<le> real_of_int (py_int v) * v) \<and>
     (\<forall>v. center_value F p (align_y p) (misalign_y p) = Fin v \<longrightarrow>
          center_y_fl F p = Inr (min \<bar>py_int v\<bar> 49 * sgn (py_int v)) \<and>
          \<bar>real_of_int (py_int v)\<bar> \<le> \<bar>v\<bar> \<and> \<bar>v\<bar> < \<bar>real_of_int (py_int v)\<bar> + 1 \<and>
          0 \<le> real_of_int (py_int v) * v) \<and>
     (center_value F p (align_x p) (misalign_x p) \<in> {PInf, NInf} \<longrightarrow>
          center_x_fl F p = Inl OverflowError) \<and>
     (center_value F p (align_y p) (misalign_y p) \<in> {PInf, NInf} \<longrightarrow>
          center_y_fl F p = Inl OverflowError) \<and>
     (center_value F p (align_x p) (misalign_x p) = NaN \<longrightarrow> center_x_fl F p = Inl ValueError) \<and>
     (center_value F p (align_y p) (misalign_y p) = NaN \<longrightarrow> center_y_fl F p = Inl ValueError) \<and>
     (\<forall>c. center_x_fl F p = Inr c \<longrightarrow> \<bar>c\<bar> \<le> 96) \<and>
     (\<forall>c. center_y_fl F p = Inr c \<longrightarrow> \<bar>c\<bar> \<le> 49)"
proof -
  have x: "center_x_fl F p = Inr (min \<bar>py_int v\<bar> 96 * sgn (py_int v))"
    if "center_value F p (align_x p) (misalign_x p) = Fin v" for v
    using assms that by (simp add: center_x_fl_def int_of_float_def clamp_sign)
  have y: "center_y_fl F p = Inr (min \<bar>py_int v\<bar> 49 * sgn (py_int v))"
    if "center_value F p (align_y p) (misalign_y p) = Fin v" for v
    using assms that by (simp add: center_y_fl_def int_of_float_def clamp_sign)
  have xo: "center_x_fl F p = Inl OverflowError"
    if "center_value F p (align_x p) (misalign_x p) \<in> {PInf, NInf}"
    using assms that by (auto simp: center_x_fl_def int_of_float_def)
  have yo: "center_y_fl F p = Inl OverflowError"
    if "center_value F p (align_y p) (misalign_y p) \<in> {PInf, NInf}"
    using assms that by (auto simp: center_y_fl_def int_of_float_def)
  have xn: "center_x_fl F p = Inl ValueError"
    if "center_value F p (align_x p) (misalign_x p) = NaN"
    using assms that by (simp add: center_x_fl_def int_of_float_def)
  have yn: "center_y_fl F p = Inl ValueError"
    if "center_value F p (align_y p) (misalign_y p) = NaN"
    using assms that by (simp add: center_y_fl_def int_of_float_def)
  have xb: "\<bar>c\<bar> \<le> 96" if "center_x_fl F p = Inr c" for c
    using that assms
    by (auto simp: center_x_fl_def np_sign_def min_def split: if_splits sum.splits)
  have yb: "\<bar>c\<bar> \<le> 49" if "center_y_fl F p = Inr c" for c
    using that assms
    by (auto simp: center_y_fl_def np_sign_def min_def split: if_splits sum.splits)
  show ?thesis
    using x y xo yo xn yn xb yb py_int_props by (intro conjI allI impI) blast+
qed

theorem center_float_witness:
  "focus sample_beam \<noteq> 0 \<and>
   center_value range_arith sample_beam (align_x sample_beam) (misalign_x sample_beam)
     = Fin (- (2534400 / 1143)) \<and>
   center_x_fl range_arith sample_beam = Inr (- 96) \<and>
   center_value range_arith sample_beam (align_y sample_beam) (misalign_y sample_beam)
     = Fin (5068800 / 1143) \<and>
   center_y_fl range_arith sample_beam = Inr 49 \<and>
   focus overflow_beam \<noteq> 0 \<and>
   center_value range_arith overflow_beam (align_x overflow_beam) (misalign_x overflow_beam)
     \<in> {PInf, NInf} \<and>
   center_x_fl range_arith overflow_beam = Inl OverflowError"
proof -
  have h: "focus sample_beam \<noteq> 0" "focus overflow_beam \<noteq> 0"
    by (simp_all add: sample_beam_def overflow_beam_def)
  have t: "py_int (- (2534400 / 1143)) = - 2217" "py_int (5068800 / 1143) = 4434"
    by (simp_all add: py_int_def)
  note a = center_float[OF h(1), of range_arith]
  note b = center_float[OF h(2), of range_arith]
  have x: "center_x_fl range_arith sample_beam = Inr (- 96)"
    using a[THEN conjunct1, rule_format, OF sample_center_value(1), THEN conjunct1]
    unfolding t by simp
  have y: "center_y_fl range_arith sample_beam = Inr 49"
    using a[THEN conjunct2, THEN conjunct1, rule_format, OF sample_center_value(2), THEN conjunct1]
    unfolding t by simp
  have o: "center_x_fl range_arith overflow_beam = Inl OverflowError"
    using b overflow_center_value by simp
  show ?thesis
    using h x y o sample_center_value overflow_center_value by (intro conjI) simp_all
qed

end
